theory Spec2Isabelle
  imports Main "HOL-Library.Word"
begin

unbundle bit_operations_syntax

section \<open>The Pawn abstract machine header (amx.h)\<close>

text \<open>
  The repository's source is the header \<^verbatim>\<open>amx.h\<close> of the Pawn abstract machine: its
  build-time constants, the layout of the module header and of the instance record, the
  error enumeration, the flag bits and a few macros. The embedding below follows the header
  declaration by declaration. The functions the header only declares (\<^verbatim>\<open>amx_Init\<close>,
  \<^verbatim>\<open>amx_Push\<close>, \<^verbatim>\<open>amx_Allot\<close>, \<^verbatim>\<open>amx_SetUserData\<close>) have no body in the source; they are
  modelled from the specification, each under a comment that says so.
\<close>

subsection \<open>Build-time constants\<close>

text \<open>File and machine versions (amx.h, lines 198--202).\<close>

definition CUR_FILE_VERSION :: int where "CUR_FILE_VERSION = 9"
definition MIN_FILE_VERSION :: int where "MIN_FILE_VERSION = 6"
definition MIN_AMX_VERSION :: int where "MIN_AMX_VERSION = 10"
definition MAX_FILE_VER_JIT :: int where "MAX_FILE_VER_JIT = 8"
definition MIN_AMX_VER_JIT :: int where "MIN_AMX_VER_JIT = 8"

text \<open>
  \<^verbatim>\<open>PAWN_CELL_SIZE\<close> is the width of a cell in bits. The header accepts 16, 32 and 64 and stops
  the build with \<^verbatim>\<open>#error\<close> on any other value. A cell is modelled as a \<open>'c word\<close> whose length
  is the cell size; functions of the preprocessor level take the size as a number.
\<close>

definition supported_cell_size :: "nat \<Rightarrow> bool" where
  "supported_cell_size W \<longleftrightarrow> W = 16 \<or> W = 32 \<or> W = 64"

text \<open>\<^verbatim>\<open>sizeof(cell)\<close> and \<^verbatim>\<open>sizeof(ucell)\<close>, in bytes.\<close>

definition sizeof_cell :: "nat \<Rightarrow> nat" where
  "sizeof_cell W = W div 8"

text \<open>\<^verbatim>\<open>#define STKMARGIN ((cell)(16*sizeof(cell)))\<close>\<close>

definition STKMARGIN :: "'c::len word" where
  "STKMARGIN = of_nat (16 * sizeof_cell LENGTH('c))"

text \<open>\<^verbatim>\<open>AMX_USERNUM\<close> (default value), \<^verbatim>\<open>sEXPMAX\<close>.\<close>

definition AMX_USERNUM :: nat where "AMX_USERNUM = 4"
definition sEXPMAX :: nat where "sEXPMAX = 19"

subsection \<open>Error codes\<close>

text \<open>
  The anonymous \<^verbatim>\<open>enum\<close> of error codes (amx.h, lines 413--442). An enumerator without an
  initialiser takes the value of its predecessor plus one, the first one the value zero;
  \<^verbatim>\<open>AMX_ERR_MEMORY\<close> is the only enumerator with an initialiser.
\<close>

datatype amx_err =
    AMX_ERR_NONE
  | AMX_ERR_EXIT
  | AMX_ERR_ASSERT
  | AMX_ERR_STACKERR
  | AMX_ERR_BOUNDS
  | AMX_ERR_MEMACCESS
  | AMX_ERR_INVINSTR
  | AMX_ERR_STACKLOW
  | AMX_ERR_HEAPLOW
  | AMX_ERR_CALLBACK
  | AMX_ERR_NATIVE
  | AMX_ERR_DIVIDE
  | AMX_ERR_SLEEP
  | AMX_ERR_INVSTATE
  | AMX_ERR_MEMORY
  | AMX_ERR_FORMAT
  | AMX_ERR_VERSION
  | AMX_ERR_NOTFOUND
  | AMX_ERR_INDEX
  | AMX_ERR_DEBUG
  | AMX_ERR_INIT
  | AMX_ERR_USERDATA
  | AMX_ERR_INIT_JIT
  | AMX_ERR_PARAMS
  | AMX_ERR_DOMAIN
  | AMX_ERR_GENERAL

definition amx_err_enum :: "(amx_err \<times> int option) list" where
  "amx_err_enum =
    [(AMX_ERR_NONE, None),
     (AMX_ERR_EXIT, None),
     (AMX_ERR_ASSERT, None),
     (AMX_ERR_STACKERR, None),
     (AMX_ERR_BOUNDS, None),
     (AMX_ERR_MEMACCESS, None),
     (AMX_ERR_INVINSTR, None),
     (AMX_ERR_STACKLOW, None),
     (AMX_ERR_HEAPLOW, None),
     (AMX_ERR_CALLBACK, None),
     (AMX_ERR_NATIVE, None),
     (AMX_ERR_DIVIDE, None),
     (AMX_ERR_SLEEP, None),
     (AMX_ERR_INVSTATE, None),
     (AMX_ERR_MEMORY, Some 16),
     (AMX_ERR_FORMAT, None),
     (AMX_ERR_VERSION, None),
     (AMX_ERR_NOTFOUND, None),
     (AMX_ERR_INDEX, None),
     (AMX_ERR_DEBUG, None),
     (AMX_ERR_INIT, None),
     (AMX_ERR_USERDATA, None),
     (AMX_ERR_INIT_JIT, None),
     (AMX_ERR_PARAMS, None),
     (AMX_ERR_DOMAIN, None),
     (AMX_ERR_GENERAL, None)]"

text \<open>The values C gives to the enumerators of a declaration, \<open>nxt\<close> being the next implicit value.\<close>

fun enum_values :: "int \<Rightarrow> ('a \<times> int option) list \<Rightarrow> ('a \<times> int) list" where
  "enum_values nxt [] = []"
| "enum_values nxt ((e, None) # ds) = (e, nxt) # enum_values (nxt + 1) ds"
| "enum_values nxt ((e, Some v) # ds) = (e, v) # enum_values (v + 1) ds"

definition amx_err_code :: "amx_err \<Rightarrow> int" where
  "amx_err_code e = the (map_of (enum_values 0 amx_err_enum) e)"

subsection \<open>Flag bits\<close>

text \<open>The \<^verbatim>\<open>AMX_FLAG_*\<close> macros (amx.h, lines 444--455); \<^verbatim>\<open>flags\<close> of the instance is an \<^verbatim>\<open>int\<close>.\<close>

definition AMX_FLAG_DEBUG :: "32 word" where "AMX_FLAG_DEBUG = 0x02"
definition AMX_FLAG_COMPACT :: "32 word" where "AMX_FLAG_COMPACT = 0x04"
definition AMX_FLAG_SLEEP :: "32 word" where "AMX_FLAG_SLEEP = 0x08"
definition AMX_FLAG_NOCHECKS :: "32 word" where "AMX_FLAG_NOCHECKS = 0x10"
definition AMX_FLAG_NO_RELOC :: "32 word" where "AMX_FLAG_NO_RELOC = 0x200"
definition AMX_FLAG_NO_SYSREQD :: "32 word" where "AMX_FLAG_NO_SYSREQD = 0x400"
definition AMX_FLAG_SYSREQN :: "32 word" where "AMX_FLAG_SYSREQN = 0x800"
definition AMX_FLAG_NTVREG :: "32 word" where "AMX_FLAG_NTVREG = 0x1000"
definition AMX_FLAG_JITC :: "32 word" where "AMX_FLAG_JITC = 0x2000"
definition AMX_FLAG_BROWSE :: "32 word" where "AMX_FLAG_BROWSE = 0x4000"
definition AMX_FLAG_RELOC :: "32 word" where "AMX_FLAG_RELOC = 0x8000"

text \<open>The eleven flags, in the order of the header.\<close>

definition amx_flags :: "32 word list" where
  "amx_flags =
    [AMX_FLAG_DEBUG, AMX_FLAG_COMPACT, AMX_FLAG_SLEEP, AMX_FLAG_NOCHECKS,
     AMX_FLAG_NO_RELOC, AMX_FLAG_NO_SYSREQD, AMX_FLAG_SYSREQN, AMX_FLAG_NTVREG,
     AMX_FLAG_JITC, AMX_FLAG_BROWSE, AMX_FLAG_RELOC]"

text \<open>A word with exactly one bit set, and a list of words no two of which share a bit.\<close>

definition single_bit :: "32 word \<Rightarrow> bool" where
  "single_bit w \<longleftrightarrow> w \<noteq> 0 \<and> w AND (w - 1) = 0"

fun pairwise_disjoint :: "32 word list \<Rightarrow> bool" where
  "pairwise_disjoint [] = True"
| "pairwise_disjoint (x # xs) = (list_all (\<lambda>y. x AND y = 0) xs \<and> pairwise_disjoint xs)"

subsection \<open>Structure layouts\<close>

text \<open>
  The structures of the header are packed to byte boundaries (\<^verbatim>\<open>PACKED\<close>, \<^verbatim>\<open>#pragma pack(1)\<close>),
  so the size of a structure is the sum of the sizes of its fields. A structure declaration
  is embedded as the list of its fields, each with its C type.
\<close>

datatype ctype =
    C_char
  | C_int16
  | C_uint16
  | C_int32
  | C_uint32
  | C_ucell
  | C_array ctype nat

fun sizeof_ctype :: "nat \<Rightarrow> ctype \<Rightarrow> nat" where
  "sizeof_ctype W C_char = 1"
| "sizeof_ctype W C_int16 = 2"
| "sizeof_ctype W C_uint16 = 2"
| "sizeof_ctype W C_int32 = 4"
| "sizeof_ctype W C_uint32 = 4"
| "sizeof_ctype W C_ucell = sizeof_cell W"
| "sizeof_ctype W (C_array t n) = n * sizeof_ctype W t"

definition sizeof_struct :: "nat \<Rightarrow> (string \<times> ctype) list \<Rightarrow> nat" where
  "sizeof_struct W fields = sum_list (map (\<lambda>f. sizeof_ctype W (snd f)) fields)"

text \<open>\<^verbatim>\<open>typedef struct tagAMX_FUNCSTUB { ucell address; char name[sEXPMAX+1]; } AMX_FUNCSTUB;\<close>\<close>

definition AMX_FUNCSTUB :: "(string \<times> ctype) list" where
  "AMX_FUNCSTUB = [(''address'', C_ucell), (''name'', C_array C_char (sEXPMAX + 1))]"

text \<open>\<^verbatim>\<open>typedef struct tagFUNCSTUBNT { ucell address; uint32_t nameofs; } AMX_FUNCSTUBNT;\<close>\<close>

definition AMX_FUNCSTUBNT :: "(string \<times> ctype) list" where
  "AMX_FUNCSTUBNT = [(''address'', C_ucell), (''nameofs'', C_uint32)]"

text \<open>The fields of \<^verbatim>\<open>AMX_HEADER\<close> (amx.h, lines 360--378), for its size.\<close>

definition AMX_HEADER_fields :: "(string \<times> ctype) list" where
  "AMX_HEADER_fields =
    [(''size'', C_int32), (''magic'', C_uint16), (''file_version'', C_char),
     (''amx_version'', C_char), (''flags'', C_int16), (''defsize'', C_int16),
     (''cod'', C_int32), (''dat'', C_int32), (''hea'', C_int32), (''stp'', C_int32),
     (''cip'', C_int32), (''publics'', C_int32), (''natives'', C_int32),
     (''libraries'', C_int32), (''pubvars'', C_int32), (''tags'', C_int32),
     (''nametable'', C_int32)]"

subsection \<open>The module header and the instance\<close>

text \<open>
  \<^verbatim>\<open>AMX_HEADER\<close>, field by field. The two \<^verbatim>\<open>char\<close> fields carry the numeric value of the
  field (the signedness of plain \<^verbatim>\<open>char\<close> is the platform's); the field \<^verbatim>\<open>size\<close> is named
  \<open>size_f\<close>.
\<close>

record AMX_HEADER =
  size_f :: "32 word"
  magic :: "16 word"
  file_version :: int
  amx_version :: int
  flags :: "16 word"
  defsize :: "16 word"
  cod :: "32 word"
  dat :: "32 word"
  hea :: "32 word"
  stp :: "32 word"
  cip :: "32 word"
  publics :: "32 word"
  natives :: "32 word"
  libraries :: "32 word"
  pubvars :: "32 word"
  tags :: "32 word"
  nametable :: "32 word"

text \<open>
  \<^verbatim>\<open>struct tagAMX\<close> (amx.h, lines 321--355), without the fields of the JIT. \<open>'cell\<close> is the
  type of a cell and \<open>'ptr\<close> the type of a host pointer (\<^verbatim>\<open>uintptr_t\<close>, with \<^verbatim>\<open>NULL\<close> as 0);
  the functions below use them at \<open>'c word\<close> and \<open>'p word\<close>. The arrays \<^verbatim>\<open>usertags\<close> and
  \<^verbatim>\<open>userdata\<close> are lists; a slot of \<^verbatim>\<open>usertags\<close> holds \<open>None\<close> while it is vacant and
  \<open>Some tag\<close> while a tag occupies it. A tag is a \<^verbatim>\<open>long\<close> in the header; the tags that
  \<^verbatim>\<open>AMX_USERTAG\<close> packs from four characters are 32 bits wide, which is the width taken
  here.
\<close>

record ('cell, 'ptr) AMX =
  base :: "'ptr"
  data :: "'ptr"
  callback :: "'ptr"
  debug :: "'ptr"
  cip :: "'cell"
  frm :: "'cell"
  hea :: "'cell"
  hlw :: "'cell"
  stk :: "'cell"
  stp :: "'cell"
  flags :: "32 word"
  usertags :: "32 word option list"
  userdata :: "'ptr list"
  error :: int
  paramcount :: int
  pri :: "'cell"
  alt :: "'cell"
  reset_stk :: "'cell"
  reset_hea :: "'cell"
  sysreq_d :: "'cell"

subsection \<open>Magic numbers and table records\<close>

definition AMX_MAGIC_16 :: "16 word" where "AMX_MAGIC_16 = 0xf1e2"
definition AMX_MAGIC_32 :: "16 word" where "AMX_MAGIC_32 = 0xf1e0"
definition AMX_MAGIC_64 :: "16 word" where "AMX_MAGIC_64 = 0xf1e1"

text \<open>
  \<^verbatim>\<open>AMX_MAGIC\<close>, selected by \<^verbatim>\<open>PAWN_CELL_SIZE\<close> (amx.h, lines 383--389). For any other cell
  size the macro is not defined (and the build has stopped before).
\<close>

definition AMX_MAGIC :: "nat \<Rightarrow> 16 word option" where
  "AMX_MAGIC W =
    (if W = 16 then Some AMX_MAGIC_16
     else if W = 32 then Some AMX_MAGIC_32
     else if W = 64 then Some AMX_MAGIC_64
     else None)"

text \<open>
  \<^verbatim>\<open>#define USENAMETABLE(hdr) ((hdr)->defsize==sizeof(AMX_FUNCSTUBNT))\<close>.
  \<^verbatim>\<open>defsize\<close> is an \<^verbatim>\<open>int16_t\<close>; a negative value converts to a huge unsigned one and equals
  no size.
\<close>

definition USENAMETABLE :: "nat \<Rightarrow> AMX_HEADER \<Rightarrow> bool" where
  "USENAMETABLE W hdr \<longleftrightarrow> sint (defsize hdr) = int (sizeof_struct W AMX_FUNCSTUBNT)"

text \<open>
  \<^verbatim>\<open>GETENTRYNAME(hdr,entry)\<close>: where the name of a table entry starts, as an offset from the
  start of the header. \<open>entry\<close> is the offset of the entry and \<open>nameofs_at entry\<close> reads the
  field \<^verbatim>\<open>((AMX_FUNCSTUBNT*)(entry))->nameofs\<close> there. With a name table the name is at that
  offset; otherwise it is the field \<^verbatim>\<open>name\<close> of the entry, which follows the address.
\<close>

definition GETENTRYNAME :: "nat \<Rightarrow> AMX_HEADER \<Rightarrow> (nat \<Rightarrow> 32 word) \<Rightarrow> nat \<Rightarrow> nat" where
  "GETENTRYNAME W hdr nameofs_at entry =
    (if USENAMETABLE W hdr then unat (nameofs_at entry)
     else entry + sizeof_ctype W C_ucell)"

subsection \<open>Address resolution\<close>

text \<open>
  \<^verbatim>\<open>#define amx_Address(amx,addr)
     (cell*)(((uintptr_t)((amx)->data ? (amx)->data
                : (amx)->base+(int)((AMX_HEADER *)(amx)->base)->dat)) + ((uintptr_t)(addr)))\<close>
  \<open>hdr\<close> is the header that \<^verbatim>\<open>base\<close> points to. The offset \<^verbatim>\<open>dat\<close> is a signed 32-bit value and
  \<open>addr\<close> a cell; both are converted to the width of a pointer with their sign, and the sum
  wraps at that width.
\<close>

definition amx_Address ::
  "AMX_HEADER \<Rightarrow> ('c::len word, 'p::len word) AMX \<Rightarrow> 'c word \<Rightarrow> 'p word" where
  "amx_Address hdr amx addr =
    (if data amx \<noteq> 0 then data amx else base amx + scast (AMX_HEADER.dat hdr)) + scast addr"

subsection \<open>The loader\<close>

text \<open>
  Modelled from the spec: the header declares \<^verbatim>\<open>amx_Init\<close> and has no body for it. The
  version test of the loader, from the validation list of the specification:
  \<^verbatim>\<open>file_version\<close> within \<^verbatim>\<open>[MIN_FILE_VERSION, CUR_FILE_VERSION]\<close> and \<^verbatim>\<open>amx_version\<close> at least
  \<^verbatim>\<open>MIN_AMX_VERSION\<close>, "or the JIT-specific bound when JIT is selected". The bounds of the JIT
  are the two constants the header defines for it: \<^verbatim>\<open>MAX_FILE_VER_JIT\<close>, "file version supported
  by the JIT", and \<^verbatim>\<open>MIN_AMX_VER_JIT\<close>. \<open>jit\<close> says whether the build selects the JIT.
\<close>

definition version_ok :: "bool \<Rightarrow> AMX_HEADER \<Rightarrow> bool" where
  "version_ok jit hdr \<longleftrightarrow>
    MIN_FILE_VERSION \<le> file_version hdr \<and> file_version hdr \<le> CUR_FILE_VERSION \<and>
    (if jit then file_version hdr \<le> MAX_FILE_VER_JIT \<and> MIN_AMX_VER_JIT \<le> amx_version hdr
     else MIN_AMX_VERSION \<le> amx_version hdr)"

text \<open>
  Modelled from the spec: the test of the section offsets, \<^verbatim>\<open>cod \<le> dat \<le> hea \<le> stp\<close>, all
  cell-aligned (the loader has no body in the header).
\<close>

definition cell_aligned :: "nat \<Rightarrow> 32 word \<Rightarrow> bool" where
  "cell_aligned W x \<longleftrightarrow> sint x mod int (sizeof_cell W) = 0"

definition sections_ok :: "nat \<Rightarrow> AMX_HEADER \<Rightarrow> bool" where
  "sections_ok W hdr \<longleftrightarrow>
    sint (AMX_HEADER.cod hdr) \<le> sint (AMX_HEADER.dat hdr) \<and>
    sint (AMX_HEADER.dat hdr) \<le> sint (AMX_HEADER.hea hdr) \<and>
    sint (AMX_HEADER.hea hdr) \<le> sint (AMX_HEADER.stp hdr) \<and>
    cell_aligned W (AMX_HEADER.cod hdr) \<and> cell_aligned W (AMX_HEADER.dat hdr) \<and>
    cell_aligned W (AMX_HEADER.hea hdr) \<and> cell_aligned W (AMX_HEADER.stp hdr)"

text \<open>
  Modelled from the spec: the test of the table offsets, each "either zero or within
  [header, size]", read as: not before the end of the fixed header and not after the size of
  the image (the loader has no body in the header).
\<close>

definition table_offset_ok :: "nat \<Rightarrow> AMX_HEADER \<Rightarrow> 32 word \<Rightarrow> bool" where
  "table_offset_ok W hdr off \<longleftrightarrow>
    off = 0 \<or>
    (int (sizeof_struct W AMX_HEADER_fields) \<le> sint off \<and> sint off \<le> sint (size_f hdr))"

definition tables_ok :: "nat \<Rightarrow> AMX_HEADER \<Rightarrow> bool" where
  "tables_ok W hdr \<longleftrightarrow>
    list_all (table_offset_ok W hdr)
      [publics hdr, natives hdr, libraries hdr, pubvars hdr, tags hdr, nametable hdr]"

text \<open>
  Modelled from the spec: the test of the record size,
  \<^verbatim>\<open>defsize \<in> {sizeof(inline-name record), sizeof(name-offset record)}\<close>. The second
  alternative is the macro \<^verbatim>\<open>USENAMETABLE\<close> of the header.
\<close>

definition defsize_ok :: "nat \<Rightarrow> AMX_HEADER \<Rightarrow> bool" where
  "defsize_ok W hdr \<longleftrightarrow>
    sint (defsize hdr) = int (sizeof_struct W AMX_FUNCSTUB) \<or> USENAMETABLE W hdr"

text \<open>
  Modelled from the spec: \<^verbatim>\<open>amx_Init\<close> (declared in the header, no body in the source), from
  section 4.1 of the specification. \<open>init(image)\<close> takes the raw module buffer, here its
  length \<open>buflen\<close>, its host address \<open>program\<close> and the header \<open>hdr\<close> it starts with, and the
  instance. "Double init must be detected and rejected", with INIT: an instance is
  initialised while it is bound to an image, that is while its \<^verbatim>\<open>base\<close>, the "owner pointer to
  the module image", is not \<^verbatim>\<open>NULL\<close>; this test comes first, before the image is looked at.
  The validation then runs in the order of the specification, each failure with its error:
  no buffer (\<^verbatim>\<open>NULL\<close>), or one too small for the fixed header or for the header's
  \<^verbatim>\<open>size\<close>, is MEMORY, a magic other than the one of the cell width is FORMAT, a version out
  of range is VERSION, bad offsets or record size are FORMAT. On success the image is bound
  and the registers are set:
  \<^verbatim>\<open>hlw := hea := header.hea - header.dat\<close>,
  \<^verbatim>\<open>stp := header.stp - header.dat - sizeof(cell)\<close>, \<^verbatim>\<open>stk := stp\<close>, \<^verbatim>\<open>frm := stp\<close>,
  \<^verbatim>\<open>cip := header.cip\<close>, \<^verbatim>\<open>reset_hea := hea\<close>, \<^verbatim>\<open>reset_stk := stk\<close>. The byte swap of a
  foreign-endian header and the relocation of the code are not modelled.
\<close>

definition amx_Init ::
  "bool \<Rightarrow> nat \<Rightarrow> 'p::len word \<Rightarrow> AMX_HEADER \<Rightarrow> ('c::len word, 'p word) AMX
    \<Rightarrow> amx_err + ('c word, 'p word) AMX" where
  "amx_Init jit buflen program hdr amx =
    (if base amx \<noteq> 0 then Inl AMX_ERR_INIT
     else if program = 0 then Inl AMX_ERR_MEMORY
     else if buflen < sizeof_struct LENGTH('c) AMX_HEADER_fields then Inl AMX_ERR_MEMORY
     else if int buflen < sint (size_f hdr) then Inl AMX_ERR_MEMORY
     else if AMX_MAGIC LENGTH('c) \<noteq> Some (magic hdr) then Inl AMX_ERR_FORMAT
     else if \<not> version_ok jit hdr then Inl AMX_ERR_VERSION
     else if \<not> sections_ok LENGTH('c) hdr then Inl AMX_ERR_FORMAT
     else if \<not> tables_ok LENGTH('c) hdr then Inl AMX_ERR_FORMAT
     else if \<not> defsize_ok LENGTH('c) hdr then Inl AMX_ERR_FORMAT
     else
       let hea0 = scast (AMX_HEADER.hea hdr - AMX_HEADER.dat hdr) :: 'c word;
           stp0 = scast (AMX_HEADER.stp hdr - AMX_HEADER.dat hdr)
                    - of_nat (sizeof_cell LENGTH('c)) :: 'c word
       in Inr (amx\<lparr>base := program, cip := scast (AMX_HEADER.cip hdr), frm := stp0,
                    hea := hea0, hlw := hea0, stk := stp0, stp := stp0,
                    reset_stk := stp0, reset_hea := hea0\<rparr>))"

subsection \<open>Stack and heap\<close>

text \<open>
  Modelled from the spec: \<^verbatim>\<open>amx_Push\<close> (declared in the header, no body in the source).
  "Every push checks \<^verbatim>\<open>stk - cell \<ge> hea + STKMARGIN\<close>; on violation STACKERR"; a push
  decrements \<^verbatim>\<open>stk\<close>, writes the cell and counts it in \<^verbatim>\<open>paramcount\<close>. The comparison is
  the one of the specification, on the signed values of the registers. \<open>mem\<close> is the host
  memory, one cell at a host address; the cell is written where \<^verbatim>\<open>amx_Address\<close> resolves the
  new stack pointer.
\<close>

definition amx_Push ::
  "AMX_HEADER \<Rightarrow> ('c::len word, 'p::len word) AMX \<Rightarrow> ('p word \<Rightarrow> 'c word) \<Rightarrow> 'c word
    \<Rightarrow> amx_err \<times> ('c word, 'p word) AMX \<times> ('p word \<Rightarrow> 'c word)" where
  "amx_Push hdr amx mem v =
    (if sint (stk amx) - int (sizeof_cell LENGTH('c))
          \<ge> sint (AMX.hea amx) + sint (STKMARGIN :: 'c word)
     then
       let stk' = stk amx - of_nat (sizeof_cell LENGTH('c))
       in (AMX_ERR_NONE,
           amx\<lparr>stk := stk', paramcount := paramcount amx + 1\<rparr>,
           mem(amx_Address hdr amx stk' := v))
     else (AMX_ERR_STACKERR, amx, mem))"

text \<open>
  Modelled from the spec: \<^verbatim>\<open>amx_Allot\<close> (declared in the header, no body in the source).
  "Every heap \<^verbatim>\<open>allot(n)\<close> checks \<^verbatim>\<open>hea + n\<cdot>cell \<le> stk - STKMARGIN\<close> and advances \<^verbatim>\<open>hea\<close>"; it
  returns the script address of the block and its host address, and fails with HEAPLOW.
  \<open>cells\<close> is the \<^verbatim>\<open>int\<close> of the declaration.
\<close>

definition amx_Allot ::
  "AMX_HEADER \<Rightarrow> ('c::len word, 'p::len word) AMX \<Rightarrow> int
    \<Rightarrow> amx_err \<times> ('c word, 'p word) AMX \<times> ('c word \<times> 'p word) option" where
  "amx_Allot hdr amx cells =
    (if sint (AMX.hea amx) + cells * int (sizeof_cell LENGTH('c))
          \<le> sint (stk amx) - sint (STKMARGIN :: 'c word)
     then (AMX_ERR_NONE,
           amx\<lparr>hea := AMX.hea amx + word_of_int (cells * int (sizeof_cell LENGTH('c)))\<rparr>,
           Some (AMX.hea amx, amx_Address hdr amx (AMX.hea amx)))
     else (AMX_ERR_HEAPLOW, amx, None))"

subsection \<open>User data\<close>

text \<open>The index of the first element of a list that equals \<open>x\<close>.\<close>

fun find_slot :: "'a \<Rightarrow> 'a list \<Rightarrow> nat option" where
  "find_slot x [] = None"
| "find_slot x (y # ys) =
    (if y = x then Some 0 else map_option Suc (find_slot x ys))"

text \<open>
  Modelled from the spec: \<^verbatim>\<open>amx_SetUserData\<close> (declared in the header, no body in the
  source). The user-data slots are "a closed fixed-size keyed store", to be treated "as an
  association list, not as a growable map; attempting to insert past capacity fails with
  USERDATA". A tag that has a slot keeps it and gets the new pointer; a new tag takes the
  first vacant slot; with no vacant slot among the \<^verbatim>\<open>AMX_USERNUM\<close> slots the call fails and
  changes nothing.
\<close>

definition amx_SetUserData ::
  "('cell, 'ptr) AMX \<Rightarrow> 32 word \<Rightarrow> 'ptr \<Rightarrow> amx_err \<times> ('cell, 'ptr) AMX" where
  "amx_SetUserData amx tag ptr =
    (let slots = take AMX_USERNUM (usertags amx);
         found = (case find_slot (Some tag) slots of
                    Some i \<Rightarrow> Some i
                  | None \<Rightarrow> find_slot None slots)
     in case found of
          None \<Rightarrow> (AMX_ERR_USERDATA, amx)
        | Some i \<Rightarrow>
            (AMX_ERR_NONE,
             amx\<lparr>usertags := (usertags amx)[i := Some tag],
                  userdata := (userdata amx)[i := ptr]\<rparr>))"

subsection \<open>A sample module and a fresh instance\<close>

text \<open>
  A fresh instance: every register zero, no hook, and \<^verbatim>\<open>AMX_USERNUM\<close> vacant user-data slots.
\<close>

definition amx_fresh :: "('c::len word, 'p::len word) AMX" where
  "amx_fresh =
    \<lparr>base = 0, data = 0, callback = 0, debug = 0, cip = 0, frm = 0, hea = 0, hlw = 0,
     stk = 0, stp = 0, flags = 0, usertags = replicate AMX_USERNUM None,
     userdata = replicate AMX_USERNUM 0, error = 0, paramcount = 0, pri = 0, alt = 0,
     reset_stk = 0, reset_hea = 0, sysreq_d = 0\<rparr>"

text \<open>
  The header of a small module for 32-bit cells: 8 bytes of code after the 56 bytes of the
  header, 16 bytes of data, 4096 bytes of heap and stack, no table, no \<^verbatim>\<open>main\<close>.
\<close>

definition hdr_sample :: AMX_HEADER where
  "hdr_sample =
    \<lparr>size_f = 80, magic = 0xf1e0, file_version = 9, amx_version = 10, flags = 0,
     defsize = 8, cod = 56, dat = 64, hea = 80, stp = 4176, cip = - 1, publics = 0,
     natives = 0, libraries = 0, pubvars = 0, tags = 0, nametable = 0\<rparr>"

text \<open>
  The instance the loader makes of the sample module at host address 0x10000 (32-bit cells,
  64-bit pointers): 16 bytes of data below the heap, the stack top at 4176 - 64 - 4.
\<close>

definition amx_sample :: "(32 word, 64 word) AMX" where
  "amx_sample =
    amx_fresh\<lparr>base := 0x10000, cip := - 1, frm := 4108, hea := 16, hlw := 16, stk := 4108,
              stp := 4108, reset_stk := 4108, reset_hea := 16\<rparr>"

text \<open>An instance whose four user-data slots are taken by the tags 1 to 4.\<close>

definition amx_full :: "(32 word, 64 word) AMX" where
  "amx_full =
    amx_fresh\<lparr>usertags := [Some 1, Some 2, Some 3, Some 4], userdata := [10, 20, 30, 40]\<rparr>"

section \<open>Error codes\<close>

lemmas amx_flag_defs =
  AMX_FLAG_DEBUG_def AMX_FLAG_COMPACT_def AMX_FLAG_SLEEP_def AMX_FLAG_NOCHECKS_def
  AMX_FLAG_NO_RELOC_def AMX_FLAG_NO_SYSREQD_def AMX_FLAG_SYSREQN_def AMX_FLAG_NTVREG_def
  AMX_FLAG_JITC_def AMX_FLAG_BROWSE_def AMX_FLAG_RELOC_def

lemma enum_values_amx_err:
  "enum_values 0 amx_err_enum =
    [(AMX_ERR_NONE, 0), (AMX_ERR_EXIT, 1), (AMX_ERR_ASSERT, 2), (AMX_ERR_STACKERR, 3),
     (AMX_ERR_BOUNDS, 4), (AMX_ERR_MEMACCESS, 5), (AMX_ERR_INVINSTR, 6),
     (AMX_ERR_STACKLOW, 7), (AMX_ERR_HEAPLOW, 8), (AMX_ERR_CALLBACK, 9),
     (AMX_ERR_NATIVE, 10), (AMX_ERR_DIVIDE, 11), (AMX_ERR_SLEEP, 12),
     (AMX_ERR_INVSTATE, 13), (AMX_ERR_MEMORY, 16), (AMX_ERR_FORMAT, 17),
     (AMX_ERR_VERSION, 18), (AMX_ERR_NOTFOUND, 19), (AMX_ERR_INDEX, 20),
     (AMX_ERR_DEBUG, 21), (AMX_ERR_INIT, 22), (AMX_ERR_USERDATA, 23),
     (AMX_ERR_INIT_JIT, 24), (AMX_ERR_PARAMS, 25), (AMX_ERR_DOMAIN, 26),
     (AMX_ERR_GENERAL, 27)]"
  by (simp add: amx_err_enum_def)

text \<open>
  Claim C3. The error codes form two bands. \<^verbatim>\<open>AMX_ERR_NONE\<close> is 0. \<^verbatim>\<open>AMX_ERR_EXIT\<close> to
  \<^verbatim>\<open>AMX_ERR_INVSTATE\<close> take the consecutive values 1 to 13, in the order EXIT, ASSERT,
  STACKERR, BOUNDS, MEMACCESS, INVINSTR, STACKLOW, HEAPLOW, CALLBACK, NATIVE, DIVIDE, SLEEP,
  INVSTATE, all inside the reserved range 1 to 15. \<^verbatim>\<open>AMX_ERR_MEMORY\<close> to \<^verbatim>\<open>AMX_ERR_GENERAL\<close>
  take the consecutive values from 16 on, in the order MEMORY, FORMAT, VERSION, NOTFOUND,
  INDEX, DEBUG, INIT, USERDATA, INIT_JIT, PARAMS, DOMAIN, GENERAL. The enumeration has no
  other member.
\<close>

theorem amx_err_code_bands:
  "amx_err_code AMX_ERR_NONE = 0
   \<and> map amx_err_code
       [AMX_ERR_EXIT, AMX_ERR_ASSERT, AMX_ERR_STACKERR, AMX_ERR_BOUNDS, AMX_ERR_MEMACCESS,
        AMX_ERR_INVINSTR, AMX_ERR_STACKLOW, AMX_ERR_HEAPLOW, AMX_ERR_CALLBACK,
        AMX_ERR_NATIVE, AMX_ERR_DIVIDE, AMX_ERR_SLEEP, AMX_ERR_INVSTATE]
     = [1, 2, 3, 4, 5, 6, 7, 8, 9, 10, 11, 12, 13]
   \<and> list_all (\<lambda>v. 1 \<le> v \<and> v \<le> 15) (map snd (take 13 (drop 1 (enum_values 0 amx_err_enum))))
   \<and> map amx_err_code
       [AMX_ERR_MEMORY, AMX_ERR_FORMAT, AMX_ERR_VERSION, AMX_ERR_NOTFOUND, AMX_ERR_INDEX,
        AMX_ERR_DEBUG, AMX_ERR_INIT, AMX_ERR_USERDATA, AMX_ERR_INIT_JIT, AMX_ERR_PARAMS,
        AMX_ERR_DOMAIN, AMX_ERR_GENERAL]
     = [16, 17, 18, 19, 20, 21, 22, 23, 24, 25, 26, 27]
   \<and> map fst (enum_values 0 amx_err_enum) =
       [AMX_ERR_NONE, AMX_ERR_EXIT, AMX_ERR_ASSERT, AMX_ERR_STACKERR, AMX_ERR_BOUNDS,
        AMX_ERR_MEMACCESS, AMX_ERR_INVINSTR, AMX_ERR_STACKLOW, AMX_ERR_HEAPLOW,
        AMX_ERR_CALLBACK, AMX_ERR_NATIVE, AMX_ERR_DIVIDE, AMX_ERR_SLEEP, AMX_ERR_INVSTATE,
        AMX_ERR_MEMORY, AMX_ERR_FORMAT, AMX_ERR_VERSION, AMX_ERR_NOTFOUND, AMX_ERR_INDEX,
        AMX_ERR_DEBUG, AMX_ERR_INIT, AMX_ERR_USERDATA, AMX_ERR_INIT_JIT, AMX_ERR_PARAMS,
        AMX_ERR_DOMAIN, AMX_ERR_GENERAL]"
  by (simp add: amx_err_code_def enum_values_amx_err)

section \<open>Flag bits\<close>

text \<open>
  Claim C7. The flag macros have the values DEBUG 0x02, COMPACT 0x04, SLEEP 0x08,
  NOCHECKS 0x10, NO_RELOC 0x200, NO_SYSREQD 0x400, SYSREQN 0x800, NTVREG 0x1000,
  JITC 0x2000, BROWSE 0x4000, RELOC 0x8000; there are eleven of them, each is a single
  bit, and no two share a bit.
\<close>

theorem amx_flag_bits:
  "amx_flags = [0x02, 0x04, 0x08, 0x10, 0x200, 0x400, 0x800, 0x1000, 0x2000, 0x4000, 0x8000]
   \<and> length amx_flags = 11
   \<and> list_all single_bit amx_flags
   \<and> pairwise_disjoint amx_flags"
  by (simp add: amx_flags_def amx_flag_defs single_bit_def)

section \<open>Sizes, and the sample module\<close>

lemma sizeof_AMX_HEADER: "sizeof_struct W AMX_HEADER_fields = 56"
  by (simp add: sizeof_struct_def AMX_HEADER_fields_def)

lemma sizeof_AMX_FUNCSTUB: "sizeof_struct W AMX_FUNCSTUB = sizeof_cell W + 20"
  by (simp add: sizeof_struct_def AMX_FUNCSTUB_def sEXPMAX_def)

lemma sizeof_AMX_FUNCSTUBNT: "sizeof_struct W AMX_FUNCSTUBNT = sizeof_cell W + 4"
  by (simp add: sizeof_struct_def AMX_FUNCSTUBNT_def)

lemmas version_defs =
  CUR_FILE_VERSION_def MIN_FILE_VERSION_def MIN_AMX_VERSION_def MAX_FILE_VER_JIT_def
  MIN_AMX_VER_JIT_def

lemmas magic_defs = AMX_MAGIC_def AMX_MAGIC_16_def AMX_MAGIC_32_def AMX_MAGIC_64_def

text \<open>The sample header passes each test of the loader for 32-bit cells.\<close>

lemma hdr_sample_buffer:
  "sizeof_struct LENGTH(32) AMX_HEADER_fields \<le> 80" "sint (size_f hdr_sample) \<le> int 80"
  by (simp_all add: sizeof_AMX_HEADER hdr_sample_def)

lemma hdr_sample_magic: "AMX_MAGIC LENGTH(32) = Some (magic hdr_sample)"
  by (simp add: magic_defs hdr_sample_def)

lemma hdr_sample_version: "version_ok False hdr_sample"
  by (simp add: version_ok_def version_defs hdr_sample_def)

lemma hdr_sample_sections: "sections_ok LENGTH(32) hdr_sample"
  by (simp add: sections_ok_def cell_aligned_def sizeof_cell_def hdr_sample_def)

lemma hdr_sample_tables: "tables_ok LENGTH(32) hdr_sample"
  by (simp add: tables_ok_def table_offset_ok_def hdr_sample_def)

lemma hdr_sample_defsize: "defsize_ok LENGTH(32) hdr_sample"
  by (simp add: defsize_ok_def USENAMETABLE_def sizeof_AMX_FUNCSTUBNT sizeof_cell_def
      hdr_sample_def)

text \<open>
  The loader accepts exactly when the instance is not yet initialised, there is a buffer, and
  the image passes the seven tests.
\<close>

lemma amx_Init_rejects_iff:
  "isl (amx_Init jit buflen program hdr amx :: amx_err + ('c::len word, 'p::len word) AMX)
    \<longleftrightarrow> \<not> (base amx = 0 \<and> program \<noteq> 0
          \<and> sizeof_struct LENGTH('c) AMX_HEADER_fields \<le> buflen
          \<and> sint (size_f hdr) \<le> int buflen
          \<and> AMX_MAGIC LENGTH('c) = Some (magic hdr)
          \<and> version_ok jit hdr
          \<and> sections_ok LENGTH('c) hdr
          \<and> tables_ok LENGTH('c) hdr
          \<and> defsize_ok LENGTH('c) hdr)"
  by (auto simp add: amx_Init_def Let_def)

lemma amx_Init_sample:
  "amx_Init False 80 0x10000 hdr_sample amx_fresh = Inr amx_sample"
proof -
  have "\<not> isl (amx_Init False 80 (0x10000 :: 64 word) hdr_sample
      (amx_fresh :: (32 word, 64 word) AMX))"
    using hdr_sample_buffer hdr_sample_magic hdr_sample_version hdr_sample_sections
      hdr_sample_tables hdr_sample_defsize
    by (simp add: amx_Init_rejects_iff amx_fresh_def)
  then show ?thesis
    unfolding amx_Init_def
    by (simp add: Let_def hdr_sample_def amx_sample_def amx_fresh_def sizeof_cell_def
        split: if_splits)
qed

text \<open>A successful initialisation binds the image, and a second one is rejected with INIT.\<close>

lemma amx_Init_binds:
  assumes "amx_Init jit buflen program hdr amx = Inr amx'"
  shows "base amx' = program" and "base amx' \<noteq> 0"
  using assms by (auto simp add: amx_Init_def Let_def split: if_splits)

lemma amx_Init_twice:
  assumes "amx_Init jit buflen program hdr amx = Inr amx'"
  shows "amx_Init jit' buflen' program' hdr' amx' = Inl AMX_ERR_INIT"
  using amx_Init_binds(2) [OF assms] by (simp add: amx_Init_def)

lemma amx_Init_twice_sample:
  "amx_Init False 80 (0x10000 :: 64 word) hdr_sample amx_sample = Inl AMX_ERR_INIT"
  using amx_Init_sample by (rule amx_Init_twice)

section \<open>Address resolution\<close>

text \<open>
  Claim C10. For every instance and every data-relative script address \<open>addr\<close>,
  \<^verbatim>\<open>amx_Address\<close> resolves to \<^verbatim>\<open>data + addr\<close> when the data pointer of the instance is not
  \<^verbatim>\<open>NULL\<close>, and to \<^verbatim>\<open>base + header.dat + addr\<close> when it is \<^verbatim>\<open>NULL\<close>. So an address resolves
  into the image at \<^verbatim>\<open>base\<close> exactly when no separate data region is attached (or the data
  pointer is the image's own data section).
\<close>

theorem amx_Address_resolution:
  "(data amx \<noteq> 0 \<longrightarrow> amx_Address hdr amx addr = data amx + scast addr)
   \<and> (data amx = 0 \<longrightarrow>
        amx_Address hdr amx addr = base amx + scast (AMX_HEADER.dat hdr) + scast addr)
   \<and> (amx_Address hdr amx addr = base amx + scast (AMX_HEADER.dat hdr) + scast addr
        \<longleftrightarrow> data amx = 0 \<or> data amx = base amx + scast (AMX_HEADER.dat hdr))"
  by (simp add: amx_Address_def)

text \<open>
  The sample module at host address 0x10000, 32-bit cells and 64-bit pointers: script
  address 8 is at 0x10000 + 64 + 8 in the image, and at 0x20000 + 8 once a data region at
  0x20000 is attached.
\<close>

theorem amx_Address_resolution_witness:
  "data (amx_fresh\<lparr>base := 0x10000\<rparr> :: (32 word, 64 word) AMX) = 0
   \<and> amx_Address hdr_sample (amx_fresh\<lparr>base := 0x10000\<rparr> :: (32 word, 64 word) AMX) 8
       = 0x10048
   \<and> data (amx_fresh\<lparr>base := 0x10000, data := 0x20000\<rparr> :: (32 word, 64 word) AMX) \<noteq> 0
   \<and> amx_Address hdr_sample
        (amx_fresh\<lparr>base := 0x10000, data := 0x20000\<rparr> :: (32 word, 64 word) AMX) 8
       = 0x20008"
  using
    amx_Address_resolution
      [of "amx_fresh\<lparr>base := 0x10000\<rparr> :: (32 word, 64 word) AMX" hdr_sample 8]
    amx_Address_resolution
      [of "amx_fresh\<lparr>base := 0x10000, data := 0x20000\<rparr> :: (32 word, 64 word) AMX"
        hdr_sample 8]
  by (simp add: amx_fresh_def hdr_sample_def)

section \<open>The magic of the header\<close>

text \<open>
  The magic is fixed by the cell width of the build: 0xF1E2 for 16-bit cells, 0xF1E0 for
  32-bit cells, 0xF1E1 for 64-bit cells, and no magic is defined for any other width. The
  three values differ.
\<close>

lemma AMX_MAGIC_values:
  "AMX_MAGIC 16 = Some 0xF1E2" "AMX_MAGIC 32 = Some 0xF1E0" "AMX_MAGIC 64 = Some 0xF1E1"
  "distinct [AMX_MAGIC 16, AMX_MAGIC 32, AMX_MAGIC 64]"
  "AMX_MAGIC W \<noteq> None \<longleftrightarrow> supported_cell_size W"
  by (simp_all add: magic_defs supported_cell_size_def)

text \<open>
  On the loader as the specification describes it, a module whose magic is not the one of
  the cell width is rejected, with FORMAT when a fresh instance and a large enough buffer
  let the loader reach the test.
\<close>

lemma amx_Init_rejects_magic:
  assumes "AMX_MAGIC LENGTH('c) \<noteq> Some (magic hdr)"
  shows "isl (amx_Init jit buflen program hdr amx
            :: amx_err + ('c::len word, 'p::len word) AMX)"
    and "base amx = 0 \<Longrightarrow> program \<noteq> 0 \<Longrightarrow>
          sizeof_struct LENGTH('c) AMX_HEADER_fields \<le> buflen \<Longrightarrow>
          sint (size_f hdr) \<le> int buflen \<Longrightarrow>
          (amx_Init jit buflen program hdr amx
            :: amx_err + ('c::len word, 'p::len word) AMX) = Inl AMX_ERR_FORMAT"
  using assms by (simp_all add: amx_Init_def)

section \<open>The version range of the loader\<close>

text \<open>
  With the constants of the header the version test of the loader reads: file version 6 to
  9 and machine version at least 10, or, for the JIT, file version 6 to 8 and machine
  version at least 8. The loader rejects a module that fails it.
\<close>

lemma version_ok_iff:
  "version_ok False hdr \<longleftrightarrow>
    6 \<le> file_version hdr \<and> file_version hdr \<le> 9 \<and> 10 \<le> amx_version hdr"
  "version_ok True hdr \<longleftrightarrow>
    6 \<le> file_version hdr \<and> file_version hdr \<le> 8 \<and> 8 \<le> amx_version hdr"
  by (auto simp add: version_ok_def version_defs)

lemma amx_Init_rejects_version:
  assumes "\<not> version_ok jit hdr"
  shows "isl (amx_Init jit buflen program hdr amx
            :: amx_err + ('c::len word, 'p::len word) AMX)"
  using assms by (simp add: amx_Init_rejects_iff)

section \<open>Stack and heap margins\<close>

text \<open>Signed reading of a sum that stays in range.\<close>

lemma sint_of_int_in_range:
  assumes "- (2 ^ (LENGTH('a::len) - 1)) \<le> k" "k < 2 ^ (LENGTH('a) - 1)"
  shows "sint (word_of_int k :: 'a word) = k"
  using assms by (simp add: sint_sbintrunc' signed_take_bit_int_eq_self)

lemma sint_add_of_int:
  fixes x :: "'a::len word"
  assumes "- (2 ^ (LENGTH('a) - 1)) \<le> sint x + k" "sint x + k < 2 ^ (LENGTH('a) - 1)"
  shows "sint (x + word_of_int k) = sint x + k"
proof -
  have "x + word_of_int k = word_of_int (sint x + k)"
    by simp
  then show ?thesis
    using assms by (simp only: sint_of_int_in_range)
qed

lemma sint_STKMARGIN:
  assumes "supported_cell_size LENGTH('c::len)"
  shows "sint (STKMARGIN :: 'c word) = 16 * int (sizeof_cell LENGTH('c))"
proof -
  have "16 * int (sizeof_cell LENGTH('c)) < 2 ^ (LENGTH('c) - 1)"
    using assms by (auto simp add: supported_cell_size_def sizeof_cell_def)
  moreover have "- (2 ^ (LENGTH('c) - 1)) \<le> 16 * int (sizeof_cell LENGTH('c))"
    by (rule order_trans [of _ 0]) simp_all
  ultimately have "sint (word_of_int (16 * int (sizeof_cell LENGTH('c))) :: 'c word)
      = 16 * int (sizeof_cell LENGTH('c))"
    by (rule sint_of_int_in_range [rotated])
  then show ?thesis
    by (simp add: STKMARGIN_def)
qed

lemma amx_Push_ok_iff:
  "fst (amx_Push hdr amx mem v) = AMX_ERR_NONE \<longleftrightarrow>
    sint (stk amx) - int (sizeof_cell LENGTH('c))
      \<ge> sint (AMX.hea amx) + sint (STKMARGIN :: 'c word)"
  for amx :: "('c::len word, 'p::len word) AMX"
  by (simp add: amx_Push_def Let_def)

lemma amx_Push_fail:
  "fst (amx_Push hdr amx mem v) \<noteq> AMX_ERR_NONE \<Longrightarrow>
    amx_Push hdr amx mem v = (AMX_ERR_STACKERR, amx, mem)"
  for amx :: "('c::len word, 'p::len word) AMX"
  by (simp add: amx_Push_def Let_def split: if_splits)

lemma amx_Push_stk:
  "fst (amx_Push hdr amx mem v) = AMX_ERR_NONE \<Longrightarrow>
    stk (fst (snd (amx_Push hdr amx mem v))) = stk amx - of_nat (sizeof_cell LENGTH('c))"
  for amx :: "('c::len word, 'p::len word) AMX"
  by (simp add: amx_Push_def Let_def split: if_splits)

lemma amx_Push_stk_sint:
  fixes amx :: "('c::len word, 'p::len word) AMX"
  assumes "supported_cell_size LENGTH('c)" "fst (amx_Push hdr amx mem v) = AMX_ERR_NONE"
  shows "sint (stk (fst (snd (amx_Push hdr amx mem v))))
    = sint (stk amx) - int (sizeof_cell LENGTH('c))"
proof -
  let ?c = "int (sizeof_cell LENGTH('c))"
  have ok: "sint (AMX.hea amx) + sint (STKMARGIN :: 'c word) \<le> sint (stk amx) - ?c"
    using assms(2) by (simp add: amx_Push_ok_iff)
  have m: "0 \<le> sint (STKMARGIN :: 'c word)"
    using assms(1) by (simp add: sint_STKMARGIN)
  have lo: "- (2 ^ (LENGTH('c) - 1)) \<le> sint (stk amx) + (- ?c)"
    using ok m sint_ge [of "AMX.hea amx"] by linarith
  have hi: "sint (stk amx) + (- ?c) < 2 ^ (LENGTH('c) - 1)"
    using sint_lt [of "stk amx"] by linarith
  have "sint (stk amx + word_of_int (- ?c)) = sint (stk amx) + (- ?c)"
    using lo hi by (rule sint_add_of_int)
  then show ?thesis
    using assms(2) by (simp add: amx_Push_stk)
qed

lemma amx_Allot_ok_iff:
  "fst (amx_Allot hdr amx n) = AMX_ERR_NONE \<longleftrightarrow>
    sint (AMX.hea amx) + n * int (sizeof_cell LENGTH('c))
      \<le> sint (stk amx) - sint (STKMARGIN :: 'c word)"
  for amx :: "('c::len word, 'p::len word) AMX"
  by (simp add: amx_Allot_def)

lemma amx_Allot_fail:
  "fst (amx_Allot hdr amx n) \<noteq> AMX_ERR_NONE \<Longrightarrow>
    amx_Allot hdr amx n = (AMX_ERR_HEAPLOW, amx, None)"
  for amx :: "('c::len word, 'p::len word) AMX"
  by (simp add: amx_Allot_def split: if_splits)

lemma amx_Allot_hea:
  "fst (amx_Allot hdr amx n) = AMX_ERR_NONE \<Longrightarrow>
    AMX.hea (fst (snd (amx_Allot hdr amx n)))
      = AMX.hea amx + word_of_int (n * int (sizeof_cell LENGTH('c)))"
  for amx :: "('c::len word, 'p::len word) AMX"
  by (simp add: amx_Allot_def split: if_splits)

lemma amx_Allot_hea_sint:
  fixes amx :: "('c::len word, 'p::len word) AMX"
  assumes "supported_cell_size LENGTH('c)" "0 \<le> n"
    "fst (amx_Allot hdr amx n) = AMX_ERR_NONE"
  shows "sint (AMX.hea (fst (snd (amx_Allot hdr amx n))))
    = sint (AMX.hea amx) + n * int (sizeof_cell LENGTH('c))"
proof -
  let ?k = "n * int (sizeof_cell LENGTH('c))"
  have ok: "sint (AMX.hea amx) + ?k \<le> sint (stk amx) - sint (STKMARGIN :: 'c word)"
    using assms(3) by (simp add: amx_Allot_ok_iff)
  have m: "0 \<le> sint (STKMARGIN :: 'c word)"
    using assms(1) by (simp add: sint_STKMARGIN)
  have k: "0 \<le> ?k"
    using assms(2) by simp
  have lo: "- (2 ^ (LENGTH('c) - 1)) \<le> sint (AMX.hea amx) + ?k"
    using k sint_ge [of "AMX.hea amx"] by linarith
  have hi: "sint (AMX.hea amx) + ?k < 2 ^ (LENGTH('c) - 1)"
    using ok m sint_lt [of "stk amx"] by linarith
  have "sint (AMX.hea amx + word_of_int ?k) = sint (AMX.hea amx) + ?k"
    using lo hi by (rule sint_add_of_int)
  then show ?thesis
    using assms(3) by (simp add: amx_Allot_hea)
qed

lemma STKMARGIN_values:
  "(STKMARGIN :: 16 word) = 32" "(STKMARGIN :: 32 word) = 64" "(STKMARGIN :: 64 word) = 128"
  by (simp_all add: STKMARGIN_def sizeof_cell_def)

text \<open>
  Claim C2. A push succeeds exactly when \<^verbatim>\<open>stk\<close> minus one cell is at least \<^verbatim>\<open>hea\<close> plus
  \<^verbatim>\<open>STKMARGIN\<close>, and fails with STACKERR otherwise, changing nothing; on success the stack
  pointer is one cell lower (without wrapping, for a supported cell size). \<^verbatim>\<open>allot(n)\<close>
  succeeds exactly when \<^verbatim>\<open>hea\<close> plus \<open>n\<close> cells is at most \<^verbatim>\<open>stk\<close> minus \<^verbatim>\<open>STKMARGIN\<close>; on
  success \<^verbatim>\<open>hea\<close> is \<open>n\<close> cells higher (without wrapping, for \<open>n \<ge> 0\<close>), on failure the
  instance, and with it \<^verbatim>\<open>hea\<close>, is unchanged. \<^verbatim>\<open>STKMARGIN\<close> is 16 cells: 32, 64 and 128
  bytes for cells of 16, 32 and 64 bits.
\<close>

theorem push_allot_margin:
  fixes amx :: "('c::len word, 'p::len word) AMX"
  shows
  "(fst (amx_Push hdr amx mem v) = AMX_ERR_NONE \<longleftrightarrow>
      sint (stk amx) - int (sizeof_cell LENGTH('c))
        \<ge> sint (AMX.hea amx) + sint (STKMARGIN :: 'c word))
   \<and> (fst (amx_Push hdr amx mem v) \<noteq> AMX_ERR_NONE \<longrightarrow>
        amx_Push hdr amx mem v = (AMX_ERR_STACKERR, amx, mem))
   \<and> (fst (amx_Push hdr amx mem v) = AMX_ERR_NONE \<longrightarrow>
        stk (fst (snd (amx_Push hdr amx mem v)))
          = stk amx - of_nat (sizeof_cell LENGTH('c)))
   \<and> (supported_cell_size LENGTH('c) \<and> fst (amx_Push hdr amx mem v) = AMX_ERR_NONE \<longrightarrow>
        sint (stk (fst (snd (amx_Push hdr amx mem v))))
          = sint (stk amx) - int (sizeof_cell LENGTH('c)))
   \<and> (fst (amx_Allot hdr amx n) = AMX_ERR_NONE \<longleftrightarrow>
        sint (AMX.hea amx) + n * int (sizeof_cell LENGTH('c))
          \<le> sint (stk amx) - sint (STKMARGIN :: 'c word))
   \<and> (fst (amx_Allot hdr amx n) = AMX_ERR_NONE \<longrightarrow>
        AMX.hea (fst (snd (amx_Allot hdr amx n)))
          = AMX.hea amx + word_of_int (n * int (sizeof_cell LENGTH('c))))
   \<and> (supported_cell_size LENGTH('c) \<and> 0 \<le> n
        \<and> fst (amx_Allot hdr amx n) = AMX_ERR_NONE \<longrightarrow>
        sint (AMX.hea (fst (snd (amx_Allot hdr amx n))))
          = sint (AMX.hea amx) + n * int (sizeof_cell LENGTH('c)))
   \<and> (fst (amx_Allot hdr amx n) \<noteq> AMX_ERR_NONE \<longrightarrow>
        fst (snd (amx_Allot hdr amx n)) = amx)
   \<and> (supported_cell_size LENGTH('c) \<longrightarrow>
        sint (STKMARGIN :: 'c word) = 16 * int (sizeof_cell LENGTH('c)))
   \<and> (STKMARGIN :: 16 word) = 32 \<and> (STKMARGIN :: 32 word) = 64
   \<and> (STKMARGIN :: 64 word) = 128"
proof -
  note a = amx_Push_ok_iff [of hdr amx mem v]
  note b = amx_Push_fail [of hdr amx mem v]
  note c = amx_Push_stk [of hdr amx mem v]
  note c' = amx_Push_stk_sint [where amx = amx and hdr = hdr and mem = mem and v = v]
  note d = amx_Allot_ok_iff [of hdr amx n]
  note e = amx_Allot_hea [of hdr amx n]
  note f = amx_Allot_hea_sint [where amx = amx and n = n and hdr = hdr]
  have g: "fst (amx_Allot hdr amx n) \<noteq> AMX_ERR_NONE \<longrightarrow>
      fst (snd (amx_Allot hdr amx n)) = amx"
    by (simp add: amx_Allot_fail)
  note h = sint_STKMARGIN [where 'c = 'c]
  note i = STKMARGIN_values
  from a b c c' d e f g h i show ?thesis
    by blast
qed

text \<open>
  On the instance of the sample module (heap at 16, stack at 4108, 32-bit cells): a push
  succeeds and moves the stack pointer to 4104; with the heap at 4044 the push fails;
  allot of 10 cells moves the heap to 56; allot of 1008 cells fails and changes nothing.
\<close>

theorem push_allot_margin_witness:
  "fst (amx_Push hdr_sample amx_sample (\<lambda>_. 0) 7) = AMX_ERR_NONE
   \<and> stk (fst (snd (amx_Push hdr_sample amx_sample (\<lambda>_. 0) 7))) = 4104
   \<and> sint (stk (fst (snd (amx_Push hdr_sample amx_sample (\<lambda>_. 0) 7)))) = 4104
   \<and> amx_Push hdr_sample (amx_sample\<lparr>hea := 4044\<rparr>) (\<lambda>_. 0) 7
       = (AMX_ERR_STACKERR, amx_sample\<lparr>hea := 4044\<rparr>, \<lambda>_. 0)
   \<and> supported_cell_size LENGTH(32)
   \<and> fst (amx_Allot hdr_sample amx_sample 10) = AMX_ERR_NONE
   \<and> sint (AMX.hea (fst (snd (amx_Allot hdr_sample amx_sample 10)))) = 56
   \<and> AMX.hea (fst (snd (amx_Allot hdr_sample amx_sample 10))) = 56
   \<and> fst (amx_Allot hdr_sample amx_sample 1008) \<noteq> AMX_ERR_NONE
   \<and> fst (snd (amx_Allot hdr_sample amx_sample 1008)) = amx_sample
   \<and> sint (STKMARGIN :: 32 word) = 64"
proof -
  have sup: "supported_cell_size LENGTH(32)"
    by (simp add: supported_cell_size_def)
  have regs: "sint (stk amx_sample) = 4108" "sint (AMX.hea amx_sample) = 16"
    "stk amx_sample = 4108" "AMX.hea amx_sample = 16"
    "sint (stk (amx_sample\<lparr>hea := 4044\<rparr>)) = 4108"
    "sint (AMX.hea (amx_sample\<lparr>hea := 4044\<rparr>)) = 4044"
    by (simp_all add: amx_sample_def amx_fresh_def)
  have c: "sizeof_cell 32 = 4"
    by (simp add: sizeof_cell_def)
  note p1 = push_allot_margin [where amx = amx_sample and hdr = hdr_sample
      and mem = "\<lambda>_. 0" and v = 7 and n = 10]
  note p2 = push_allot_margin [where amx = "amx_sample\<lparr>hea := 4044\<rparr>" and hdr = hdr_sample
      and mem = "\<lambda>_. 0" and v = 7 and n = 1008]
  note p3 = push_allot_margin [where amx = amx_sample and hdr = hdr_sample
      and mem = "\<lambda>_. 0" and v = 7 and n = 1008]
  from p1 sup have m: "sint (STKMARGIN :: 32 word) = 64"
    by (simp add: c)
  from p1 m regs c have push_ok: "fst (amx_Push hdr_sample amx_sample (\<lambda>_. 0) 7) = AMX_ERR_NONE"
    by simp
  with p1 regs c have push_stk:
    "stk (fst (snd (amx_Push hdr_sample amx_sample (\<lambda>_. 0) 7))) = 4104"
    by simp
  from p1 sup push_ok regs c have push_sint:
    "sint (stk (fst (snd (amx_Push hdr_sample amx_sample (\<lambda>_. 0) 7)))) = 4104"
    by simp
  from p2 m regs c have "fst (amx_Push hdr_sample (amx_sample\<lparr>hea := 4044\<rparr>) (\<lambda>_. 0) 7)
      \<noteq> AMX_ERR_NONE"
    by simp
  with p2 have push_fail: "amx_Push hdr_sample (amx_sample\<lparr>hea := 4044\<rparr>) (\<lambda>_. 0) 7
       = (AMX_ERR_STACKERR, amx_sample\<lparr>hea := 4044\<rparr>, \<lambda>_. 0)"
    by blast
  from p1 m regs c have allot_ok: "fst (amx_Allot hdr_sample amx_sample 10) = AMX_ERR_NONE"
    by simp
  with p1 sup regs c have allot_sint:
    "sint (AMX.hea (fst (snd (amx_Allot hdr_sample amx_sample 10)))) = 56"
    by simp
  from p1 allot_ok regs c have allot_hea:
    "AMX.hea (fst (snd (amx_Allot hdr_sample amx_sample 10))) = 56"
    by simp
  from p3 m regs c have allot_no: "fst (amx_Allot hdr_sample amx_sample 1008) \<noteq> AMX_ERR_NONE"
    by simp
  with p3 have allot_same: "fst (snd (amx_Allot hdr_sample amx_sample 1008)) = amx_sample"
    by blast
  from push_ok push_stk push_sint push_fail sup allot_ok allot_sint allot_hea allot_no allot_same m
  show ?thesis by blast
qed

section \<open>Table records\<close>

lemma defsize_ok_iff:
  "defsize_ok W hdr \<longleftrightarrow>
    sint (defsize hdr) = int (sizeof_struct W AMX_FUNCSTUB)
    \<or> sint (defsize hdr) = int (sizeof_struct W AMX_FUNCSTUBNT)"
  by (simp add: defsize_ok_def USENAMETABLE_def)

lemma amx_Init_rejects_defsize:
  assumes "sint (defsize hdr) \<noteq> int (sizeof_struct LENGTH('c) AMX_FUNCSTUB)"
    and "sint (defsize hdr) \<noteq> int (sizeof_struct LENGTH('c) AMX_FUNCSTUBNT)"
  shows "isl (amx_Init jit buflen program hdr amx
            :: amx_err + ('c::len word, 'p::len word) AMX)"
  using assms by (simp add: amx_Init_rejects_iff defsize_ok_iff)

text \<open>
  Claim C6. The tables have two record shapes. The inline-name record is a \<^verbatim>\<open>ucell\<close> address
  followed by a name field of 20 bytes (\<^verbatim>\<open>char[sEXPMAX+1]\<close>, \<^verbatim>\<open>sEXPMAX\<close> being 19); the
  name-table record is a \<^verbatim>\<open>ucell\<close> address followed by a 32-bit name offset. Their sizes
  are one cell plus 20 bytes and one cell plus 4 bytes, so they differ and \<^verbatim>\<open>defsize\<close>
  tells the shapes apart: the name-table shape is in use exactly when \<^verbatim>\<open>defsize\<close> is the
  size of the name-table record, and then the name of an entry is found at its name offset,
  otherwise in the name field that follows the address inside the entry. A module whose
  \<^verbatim>\<open>defsize\<close> is the size of neither record is rejected at load, whatever the instance and
  the buffer.
\<close>

theorem table_record_shapes:
  "sEXPMAX = 19
   \<and> AMX_FUNCSTUB = [(''address'', C_ucell), (''name'', C_array C_char 20)]
   \<and> AMX_FUNCSTUBNT = [(''address'', C_ucell), (''nameofs'', C_uint32)]
   \<and> sizeof_struct W AMX_FUNCSTUB = sizeof_cell W + 20
   \<and> sizeof_struct W AMX_FUNCSTUBNT = sizeof_cell W + 4
   \<and> sizeof_struct W AMX_FUNCSTUB \<noteq> sizeof_struct W AMX_FUNCSTUBNT
   \<and> (USENAMETABLE W hdr \<longleftrightarrow> sint (defsize hdr) = int (sizeof_struct W AMX_FUNCSTUBNT))
   \<and> GETENTRYNAME W hdr nameofs_at entry =
        (if sint (defsize hdr) = int (sizeof_struct W AMX_FUNCSTUBNT)
         then unat (nameofs_at entry) else entry + sizeof_cell W)
   \<and> (sint (defsize hdr) \<noteq> int (sizeof_struct LENGTH('c) AMX_FUNCSTUB)
        \<and> sint (defsize hdr) \<noteq> int (sizeof_struct LENGTH('c) AMX_FUNCSTUBNT) \<longrightarrow>
        isl (amx_Init jit buflen program hdr amx
              :: amx_err + ('c::len word, 'p::len word) AMX))"
proof -
  have 1: "sEXPMAX = 19"
    by (simp add: sEXPMAX_def)
  have 2: "AMX_FUNCSTUB = [(''address'', C_ucell), (''name'', C_array C_char 20)]"
    by (simp add: AMX_FUNCSTUB_def sEXPMAX_def)
  have 3: "AMX_FUNCSTUBNT = [(''address'', C_ucell), (''nameofs'', C_uint32)]"
    by (simp add: AMX_FUNCSTUBNT_def)
  have 4: "sizeof_struct W AMX_FUNCSTUB \<noteq> sizeof_struct W AMX_FUNCSTUBNT"
    by (simp add: sizeof_AMX_FUNCSTUB sizeof_AMX_FUNCSTUBNT)
  have 5: "USENAMETABLE W hdr \<longleftrightarrow> sint (defsize hdr) = int (sizeof_struct W AMX_FUNCSTUBNT)"
    by (simp add: USENAMETABLE_def)
  have 6: "GETENTRYNAME W hdr nameofs_at entry =
        (if sint (defsize hdr) = int (sizeof_struct W AMX_FUNCSTUBNT)
         then unat (nameofs_at entry) else entry + sizeof_cell W)"
    by (simp add: GETENTRYNAME_def USENAMETABLE_def)
  have 7: "sint (defsize hdr) \<noteq> int (sizeof_struct LENGTH('c) AMX_FUNCSTUB)
        \<and> sint (defsize hdr) \<noteq> int (sizeof_struct LENGTH('c) AMX_FUNCSTUBNT) \<longrightarrow>
        isl (amx_Init jit buflen program hdr amx :: amx_err + ('c word, 'p word) AMX)"
    using amx_Init_rejects_defsize [of hdr jit buflen program amx] by blast
  from 1 2 3 4 5 6 7 sizeof_AMX_FUNCSTUB [of W] sizeof_AMX_FUNCSTUBNT [of W]
  show ?thesis by blast
qed

text \<open>
  With 32-bit cells the records are 24 and 8 bytes long. The sample module (\<^verbatim>\<open>defsize\<close> 8)
  has name-table records: the name of the entry at offset 56 is where its name offset says,
  here 72. With \<^verbatim>\<open>defsize\<close> 24 the names are inline: the name of that entry is at 60. With
  \<^verbatim>\<open>defsize\<close> 16 the module is rejected.
\<close>

theorem table_record_shapes_witness:
  "sizeof_struct 32 AMX_FUNCSTUB = 24 \<and> sizeof_struct 32 AMX_FUNCSTUBNT = 8
   \<and> USENAMETABLE 32 hdr_sample
   \<and> GETENTRYNAME 32 hdr_sample (\<lambda>_. 72) 56 = 72
   \<and> \<not> USENAMETABLE 32 (hdr_sample\<lparr>defsize := 24\<rparr>)
   \<and> GETENTRYNAME 32 (hdr_sample\<lparr>defsize := 24\<rparr>) (\<lambda>_. 72) 56 = 60
   \<and> sint (defsize (hdr_sample\<lparr>defsize := 16\<rparr>)) \<noteq> int (sizeof_struct LENGTH(32) AMX_FUNCSTUB)
   \<and> sint (defsize (hdr_sample\<lparr>defsize := 16\<rparr>))
        \<noteq> int (sizeof_struct LENGTH(32) AMX_FUNCSTUBNT)
   \<and> isl (amx_Init False 80 (0x10000 :: 64 word) (hdr_sample\<lparr>defsize := 16\<rparr>)
            (amx_fresh :: (32 word, 64 word) AMX))"
proof -
  let ?bad = "hdr_sample\<lparr>defsize := 16\<rparr>"
  have c: "sizeof_cell 32 = 4"
    by (simp add: sizeof_cell_def)
  have ds: "sint (defsize hdr_sample) = 8" "sint (defsize (hdr_sample\<lparr>defsize := 24\<rparr>)) = 24"
    by (simp_all add: hdr_sample_def)
  have bad: "sint (defsize ?bad) \<noteq> int (sizeof_struct LENGTH(32) AMX_FUNCSTUB)"
    "sint (defsize ?bad) \<noteq> int (sizeof_struct LENGTH(32) AMX_FUNCSTUBNT)"
    by (simp_all add: sizeof_AMX_FUNCSTUB sizeof_AMX_FUNCSTUBNT sizeof_cell_def)
  note t1 = table_record_shapes [where W = 32 and hdr = hdr_sample
      and nameofs_at = "\<lambda>_. 72" and entry = 56 and jit = False and buflen = 80
      and program = "0x10000 :: 64 word" and amx = "amx_fresh :: (32 word, 64 word) AMX"]
  note t2 = table_record_shapes [where W = 32 and hdr = "hdr_sample\<lparr>defsize := 24\<rparr>"
      and nameofs_at = "\<lambda>_. 72" and entry = 56 and jit = False and buflen = 80
      and program = "0x10000 :: 64 word" and amx = "amx_fresh :: (32 word, 64 word) AMX"]
  note t3 = table_record_shapes [where W = 32 and hdr = ?bad
      and nameofs_at = "\<lambda>_. 72" and entry = 56 and jit = False and buflen = 80
      and program = "0x10000 :: 64 word" and amx = "amx_fresh :: (32 word, 64 word) AMX"]
  from t1 c have sz: "sizeof_struct 32 AMX_FUNCSTUB = 24" "sizeof_struct 32 AMX_FUNCSTUBNT = 8"
    by simp_all
  from t1 sz ds c have a: "USENAMETABLE 32 hdr_sample"
    "GETENTRYNAME 32 hdr_sample (\<lambda>_. 72) 56 = 72"
    by simp_all
  from t2 sz ds c have b: "\<not> USENAMETABLE 32 (hdr_sample\<lparr>defsize := 24\<rparr>)"
    "GETENTRYNAME 32 (hdr_sample\<lparr>defsize := 24\<rparr>) (\<lambda>_. 72) 56 = 60"
    by simp_all
  from t3 bad have r: "isl (amx_Init False 80 (0x10000 :: 64 word) ?bad
      (amx_fresh :: (32 word, 64 word) AMX))"
    by blast
  from sz a b bad r show ?thesis by blast
qed

text \<open>
  The rejection is the loader's: to the macros every \<^verbatim>\<open>defsize\<close> other than the size of the
  name-table record means inline names. A module that a fresh instance loads from a real
  buffer and that passes the other tests of the loader is rejected only for such a
  \<^verbatim>\<open>defsize\<close>, and then with FORMAT.
\<close>

lemma amx_Init_accepts_defsize:
  assumes "base amx = 0" and "program \<noteq> 0"
    and "sizeof_struct LENGTH('c) AMX_HEADER_fields \<le> buflen"
    and "sint (size_f hdr) \<le> int buflen"
    and "AMX_MAGIC LENGTH('c) = Some (magic hdr)"
    and "version_ok jit hdr"
    and "sections_ok LENGTH('c) hdr"
    and "tables_ok LENGTH('c) hdr"
  shows "isl (amx_Init jit buflen program hdr amx
            :: amx_err + ('c::len word, 'p::len word) AMX)
    \<longleftrightarrow> sint (defsize hdr) \<noteq> int (sizeof_struct LENGTH('c) AMX_FUNCSTUB)
        \<and> sint (defsize hdr) \<noteq> int (sizeof_struct LENGTH('c) AMX_FUNCSTUBNT)"
    and "\<not> defsize_ok LENGTH('c) hdr \<Longrightarrow>
      (amx_Init jit buflen program hdr amx
            :: amx_err + ('c::len word, 'p::len word) AMX) = Inl AMX_ERR_FORMAT"
proof -
  show "isl (amx_Init jit buflen program hdr amx :: amx_err + ('c word, 'p word) AMX)
    \<longleftrightarrow> sint (defsize hdr) \<noteq> int (sizeof_struct LENGTH('c) AMX_FUNCSTUB)
        \<and> sint (defsize hdr) \<noteq> int (sizeof_struct LENGTH('c) AMX_FUNCSTUBNT)"
    using assms by (simp add: amx_Init_rejects_iff defsize_ok_iff)
  show "(amx_Init jit buflen program hdr amx :: amx_err + ('c word, 'p word) AMX)
      = Inl AMX_ERR_FORMAT" if "\<not> defsize_ok LENGTH('c) hdr"
    using assms that by (simp add: amx_Init_def)
qed

section \<open>User data\<close>

lemma find_slot_None_iff: "find_slot x xs = None \<longleftrightarrow> x \<notin> set xs"
  by (induction xs) auto

lemma find_slot_Some_less: "find_slot x xs = Some i \<Longrightarrow> i < length xs"
  by (induction xs arbitrary: i) (auto split: if_splits)

lemma find_slot_Some_nth: "find_slot x xs = Some i \<Longrightarrow> xs ! i = x"
  by (induction xs arbitrary: i) (auto split: if_splits)

text \<open>No slot among the first \<open>AMX_USERNUM\<close> is vacant or holds the tag.\<close>

lemma amx_SetUserData_full_iff:
  "fst (amx_SetUserData amx tag ptr) = AMX_ERR_USERDATA \<longleftrightarrow>
    list_all (\<lambda>s. s \<noteq> None \<and> s \<noteq> Some tag) (take AMX_USERNUM (usertags amx))"
proof -
  let ?slots = "take AMX_USERNUM (usertags amx)"
  have "fst (amx_SetUserData amx tag ptr) = AMX_ERR_USERDATA \<longleftrightarrow>
      find_slot (Some tag) ?slots = None \<and> find_slot None ?slots = None"
    by (simp add: amx_SetUserData_def Let_def split: option.splits)
  also have "\<dots> \<longleftrightarrow> Some tag \<notin> set ?slots \<and> None \<notin> set ?slots"
    by (simp add: find_slot_None_iff)
  also have "\<dots> \<longleftrightarrow> list_all (\<lambda>s. s \<noteq> None \<and> s \<noteq> Some tag) ?slots"
  proof -
    have "(\<forall>s \<in> set ?slots. s \<noteq> None \<and> s \<noteq> Some tag)
        \<longleftrightarrow> Some tag \<notin> set ?slots \<and> None \<notin> set ?slots"
      by metis
    then show ?thesis
      by (simp only: list_all_iff)
  qed
  finally show ?thesis .
qed

lemma amx_SetUserData_fail:
  "fst (amx_SetUserData amx tag ptr) \<noteq> AMX_ERR_NONE \<Longrightarrow>
    amx_SetUserData amx tag ptr = (AMX_ERR_USERDATA, amx)"
  by (simp add: amx_SetUserData_def Let_def split: option.splits)

lemma amx_SetUserData_length:
  "length (usertags (snd (amx_SetUserData amx tag ptr))) = length (usertags amx)"
  "length (userdata (snd (amx_SetUserData amx tag ptr))) = length (userdata amx)"
  by (simp_all add: amx_SetUserData_def Let_def split: option.splits)

text \<open>After a successful call the tag is in the store, with the pointer.\<close>

lemma amx_SetUserData_stored:
  assumes "fst (amx_SetUserData amx tag ptr) = AMX_ERR_NONE"
    "length (userdata amx) = length (usertags amx)"
  shows "\<exists>i < min AMX_USERNUM (length (usertags amx)).
    usertags (snd (amx_SetUserData amx tag ptr)) ! i = Some tag
    \<and> userdata (snd (amx_SetUserData amx tag ptr)) ! i = ptr"
proof -
  let ?slots = "take AMX_USERNUM (usertags amx)"
  obtain i where i: "(case find_slot (Some tag) ?slots of Some i \<Rightarrow> Some i
      | None \<Rightarrow> find_slot None ?slots) = Some i"
    using assms(1) by (auto simp add: amx_SetUserData_def Let_def split: option.splits)
  then have "find_slot (Some tag) ?slots = Some i \<or> find_slot None ?slots = Some i"
    by (auto split: option.splits)
  then have "i < length ?slots"
    by (auto dest: find_slot_Some_less)
  then have lt: "i < min AMX_USERNUM (length (usertags amx))"
    by simp
  have "snd (amx_SetUserData amx tag ptr)
      = amx\<lparr>usertags := (usertags amx)[i := Some tag], userdata := (userdata amx)[i := ptr]\<rparr>"
    using i by (simp add: amx_SetUserData_def Let_def)
  with lt assms(2) show ?thesis
    by auto
qed

text \<open>
  Claim C9. The user-data store of an instance has \<^verbatim>\<open>AMX_USERNUM\<close> slots, four by default,
  keyed by a 32-bit tag. Setting the data of a tag fails with USERDATA exactly when every
  slot is occupied by another tag, and then changes nothing. No call changes the number of
  slots, so the store never holds more than \<^verbatim>\<open>AMX_USERNUM\<close> entries.
\<close>

theorem user_data_store_bounded:
  "AMX_USERNUM = 4
   \<and> length (usertags (amx_fresh :: ('c::len word, 'p::len word) AMX)) = AMX_USERNUM
   \<and> length (userdata (amx_fresh :: ('c::len word, 'p::len word) AMX)) = AMX_USERNUM
   \<and> (fst (amx_SetUserData amx tag ptr) = AMX_ERR_USERDATA \<longleftrightarrow>
        list_all (\<lambda>s. s \<noteq> None \<and> s \<noteq> Some tag) (take AMX_USERNUM (usertags amx)))
   \<and> (fst (amx_SetUserData amx tag ptr) \<noteq> AMX_ERR_NONE \<longrightarrow>
        amx_SetUserData amx tag ptr = (AMX_ERR_USERDATA, amx))
   \<and> length (usertags (snd (amx_SetUserData amx tag ptr))) = length (usertags amx)
   \<and> length (userdata (snd (amx_SetUserData amx tag ptr))) = length (userdata amx)
   \<and> (length (usertags amx) = AMX_USERNUM \<longrightarrow>
        length (filter (\<lambda>s. s \<noteq> None) (usertags (snd (amx_SetUserData amx tag ptr))))
          \<le> AMX_USERNUM)"
proof -
  have 1: "AMX_USERNUM = 4"
    by (simp add: AMX_USERNUM_def)
  have 2: "length (usertags (amx_fresh :: ('c word, 'p word) AMX)) = AMX_USERNUM"
    "length (userdata (amx_fresh :: ('c word, 'p word) AMX)) = AMX_USERNUM"
    by (simp_all add: amx_fresh_def)
  have 3: "length (usertags amx) = AMX_USERNUM \<longrightarrow>
      length (filter (\<lambda>s. s \<noteq> None) (usertags (snd (amx_SetUserData amx tag ptr))))
        \<le> AMX_USERNUM"
    using length_filter_le [of "\<lambda>s. s \<noteq> None" "usertags (snd (amx_SetUserData amx tag ptr))"]
    by (simp add: amx_SetUserData_length)
  from 1 2 3 amx_SetUserData_full_iff [of amx tag ptr] amx_SetUserData_fail [of amx tag ptr]
    amx_SetUserData_length [of amx tag ptr]
  show ?thesis by blast
qed

text \<open>With the tags 1 to 4 in the four slots, setting the data of tag 5 fails.\<close>

theorem user_data_store_bounded_witness:
  "length (usertags amx_full) = AMX_USERNUM
   \<and> list_all (\<lambda>s. s \<noteq> None \<and> s \<noteq> Some 5) (take AMX_USERNUM (usertags amx_full))
   \<and> amx_SetUserData amx_full 5 50 = (AMX_ERR_USERDATA, amx_full)
   \<and> length (filter (\<lambda>s. s \<noteq> None) (usertags (snd (amx_SetUserData amx_full 5 50)))) \<le> AMX_USERNUM"
proof -
  have len: "length (usertags amx_full) = AMX_USERNUM"
    by (simp add: amx_full_def AMX_USERNUM_def)
  have full: "list_all (\<lambda>s. s \<noteq> None \<and> s \<noteq> Some 5) (take AMX_USERNUM (usertags amx_full))"
    by (simp add: amx_full_def AMX_USERNUM_def)
  note t = user_data_store_bounded [where amx = amx_full and tag = 5 and ptr = 50]
  from t full have "fst (amx_SetUserData amx_full 5 50) = AMX_ERR_USERDATA"
    by blast
  then have "fst (amx_SetUserData amx_full 5 50) \<noteq> AMX_ERR_NONE"
    by simp
  with t have fail: "amx_SetUserData amx_full 5 50 = (AMX_ERR_USERDATA, amx_full)"
    by blast
  from t len have "length (filter (\<lambda>s. s \<noteq> None) (usertags (snd (amx_SetUserData amx_full 5 50)))) \<le> AMX_USERNUM"
    by blast
  with len full fail show ?thesis by blast
qed

end
